theory Spec2Isabelle
  imports Main
begin

section \<open>Data model\<close>

text \<open>
  The program \<^verbatim>\<open>scripts/create_issues.py\<close> reads a JSON document, probes the GitHub
  command-line client, asks for one confirmation and then creates one issue per task.

  The document returned by \<^verbatim>\<open>json.load\<close> is a dictionary. The program reads the keys
  \<^verbatim>\<open>project\<close> (with \<^verbatim>\<open>repository\<close> and \<^verbatim>\<open>milestone\<close>) and \<^verbatim>\<open>tasks\<close>, and seven keys of
  every task. Every key is modelled as an optional field: \<open>None\<close> is an absent key, and
  reading it raises \<^verbatim>\<open>KeyError\<close> as \<^verbatim>\<open>d[k]\<close> does. A present key holds a value of the type
  the input format gives it (a string, or a list of strings); values of another JSON type
  are outside this model. Strings are byte strings (UTF-8), so every non-ASCII character of
  the program's messages is spelled out as its bytes.
\<close>

datatype py_error =
    FileNotFoundError
  | PermissionError
  | JSONDecodeError
  | KeyError string
  | EOFError

record task =
  id_key :: "string option"
  title :: "string option"
  objective :: "string option"
  prerequisites :: "string list option"
  acceptanceCriteria :: "string list option"
  timeEstimate :: "string option"
  labels :: "string list option"

record project_meta =
  repository :: "string option"
  milestone :: "string option"

record document =
  project :: "project_meta option"
  tasks :: "task list option"

text \<open>
  What \<^verbatim>\<open>open\<close> followed by \<^verbatim>\<open>json.load\<close> finds at the fixed path: no file, a file that
  cannot be read, a file that is not JSON, or a document.
\<close>

datatype file_state = Missing | Unreadable | Malformed | Json document

text \<open>
  \<^verbatim>\<open>subprocess.run\<close> either fails to start the program (an \<^verbatim>\<open>OSError\<close> such as
  \<^verbatim>\<open>FileNotFoundError\<close>) or returns the return code, the standard output and the standard
  error of the finished process.
\<close>

datatype run_result = Completed int string string | SpawnError py_error

text \<open>
  Everything the program does to the outside world, in order: a line printed by
  \<^verbatim>\<open>print\<close>, a subprocess run (with its result), the opening of the input file, and the
  prompt written by \<^verbatim>\<open>input\<close>.
\<close>

datatype event =
    Print string
  | Spawn "string list" run_result
  | OpenFile
  | Input string

text \<open>
  The environment of one run. The answer of an external command may depend on the command
  and on everything that happened before it. \<open>stdin = None\<close> is an input stream at its end.
\<close>

record env =
  run_cmd :: "event list \<Rightarrow> string list \<Rightarrow> run_result"
  task_file :: file_state
  stdin :: "string option"

text \<open>
  How the process ends: \<^verbatim>\<open>sys.exit(n)\<close> or a return from \<^verbatim>\<open>main\<close> (status 0), or an
  exception that nothing catches, for which the interpreter prints a traceback and exits
  with status 1.
\<close>

datatype outcome = Exited int | Uncaught py_error

fun exit_status :: "outcome \<Rightarrow> int" where
  "exit_status (Exited n) = n"
| "exit_status (Uncaught e) = 1"

section \<open>Library functions of Python\<close>

definition lower_char :: "char \<Rightarrow> char" where
  "lower_char c =
     (let n = (of_char c :: nat) in if 65 \<le> n \<and> n \<le> 90 then char_of (n + 32) else c)"

text \<open>
  \<^verbatim>\<open>str.lower\<close> on the ASCII letters. A non-ASCII character is never mapped to an ASCII
  letter \<^verbatim>\<open>y\<close>, so the comparison with \<^verbatim>\<open>'y'\<close> in \<^verbatim>\<open>main\<close> is not affected.
\<close>

definition py_lower :: "string \<Rightarrow> string" where
  "py_lower s = map lower_char s"

definition is_space :: "char \<Rightarrow> bool" where
  "is_space c = ((of_char c :: nat) \<in> {9, 10, 11, 12, 13, 28, 29, 30, 31, 32})"

text \<open>\<^verbatim>\<open>str.strip\<close> with the ASCII whitespace characters.\<close>

definition py_strip :: "string \<Rightarrow> string" where
  "py_strip s = rev (dropWhile is_space (rev (dropWhile is_space s)))"

function str_nat :: "nat \<Rightarrow> string" where
  "str_nat n =
     (if n < 10 then [char_of (48 + n)] else str_nat (n div 10) @ [char_of (48 + n mod 10)])"
  by pat_completeness auto
termination
  by (relation "measure (\<lambda>n. n)") auto

declare str_nat.simps [simp del]

text \<open>\<^verbatim>\<open>str\<close> of an integer, as an f-string formats it.\<close>

definition str_int :: "int \<Rightarrow> string" where
  "str_int i = (if i < 0 then ''-'' @ str_nat (nat (- i)) else str_nat (nat i))"

definition py_print :: "string \<Rightarrow> event list \<Rightarrow> event list" where
  "py_print s tr = tr @ [Print s]"

definition py_input :: "env \<Rightarrow> string \<Rightarrow> event list \<Rightarrow> (py_error + string) \<times> event list" where
  "py_input e prompt tr =
     (case stdin e of
        None \<Rightarrow> (Inl EOFError, tr @ [Input prompt])
      | Some line \<Rightarrow> (Inr line, tr @ [Input prompt]))"

definition subprocess_run :: "env \<Rightarrow> string list \<Rightarrow> event list \<Rightarrow> run_result \<times> event list" where
  "subprocess_run e cmd tr = (let r = run_cmd e tr cmd in (r, tr @ [Spawn cmd r]))"

section \<open>The program\<close>

definition load_issue_data :: "env \<Rightarrow> event list \<Rightarrow> (py_error + document) \<times> event list" where
  "load_issue_data e tr =
     (case task_file e of
        Missing \<Rightarrow> (Inl FileNotFoundError, tr @ [OpenFile])
      | Unreadable \<Rightarrow> (Inl PermissionError, tr @ [OpenFile])
      | Malformed \<Rightarrow> (Inl JSONDecodeError, tr @ [OpenFile])
      | Json d \<Rightarrow> (Inr d, tr @ [OpenFile]))"

definition cross_mark :: string where
  "cross_mark = [CHR 0xE2, CHR 0x9D, CHR 0x8C]"

definition auth_cmd :: "string list" where
  "auth_cmd = [''gh'', ''auth'', ''status'']"

definition check_gh_cli :: "env \<Rightarrow> event list \<Rightarrow> (py_error + bool) \<times> event list" where
  "check_gh_cli e tr =
     (case subprocess_run e auth_cmd tr of
        (Completed returncode out err, tr) \<Rightarrow>
          if returncode \<noteq> 0
          then (Inr False,
                py_print (cross_mark @ '' GitHub CLI is not authenticated. Please run: gh auth login'') tr)
          else (Inr True, tr)
      | (SpawnError x, tr) \<Rightarrow>
          if x = FileNotFoundError
          then (Inr False,
                py_print ''Install it from: https://cli.github.com/''
                  (py_print (cross_mark @ '' GitHub CLI (gh) is not installed.'') tr))
          else (Inl x, tr))"

definition create_issue_body :: "task \<Rightarrow> py_error + string" where
  "create_issue_body task =
     (case objective task of
        None \<Rightarrow> Inl (KeyError ''objective'')
      | Some obj \<Rightarrow>
     (let body = ''## Objective\<newline>'' @ obj @ ''\<newline>\<newline>## Prerequisites\<newline>'' in
      case prerequisites task of
        None \<Rightarrow> Inl (KeyError ''prerequisites'')
      | Some prereqs \<Rightarrow>
     (let body =
        (if prereqs \<noteq> []
         then foldl (\<lambda>body prereq. body @ ''- '' @ prereq @ ''\<newline>'') body prereqs
         else body @ ''- None\<newline>'');
          body = body @ ''\<newline>## Acceptance Criteria\<newline>'' in
      case acceptanceCriteria task of
        None \<Rightarrow> Inl (KeyError ''acceptanceCriteria'')
      | Some criteria \<Rightarrow>
     (let body = foldl (\<lambda>body criterion. body @ ''- [ ] '' @ criterion @ ''\<newline>'') body criteria in
      case timeEstimate task of
        None \<Rightarrow> Inl (KeyError ''timeEstimate'')
      | Some estimate \<Rightarrow>
          Inr (body @ ''\<newline>## Time Estimate\<newline>'' @ estimate
            @ ''\<newline>\<newline>## Resources\<newline>''
            @ ''- Implementation Plan: `docs/SNES9XWASM_IMPLEMENTATION_PLAN.md`\<newline>''
            @ ''- Task Breakdown: `docs/TASK_BREAKDOWN.md`\<newline>''
            @ ''\<newline>## Definition of Done\<newline>''
            @ ''- [ ] Code changes committed and reviewed\<newline>''
            @ ''- [ ] All acceptance criteria met\<newline>''
            @ ''- [ ] Tests written and passing\<newline>''
            @ ''- [ ] Documentation updated\<newline>'')))))"

definition check_mark :: string where
  "check_mark = [CHR 0xE2, CHR 0x9C, CHR 0x93]"

definition ballot_x :: string where
  "ballot_x = [CHR 0xE2, CHR 0x9C, CHR 0x97]"

text \<open>The command of lines 85 to 95: the fixed arguments, then one pair per label.\<close>

definition build_cmd :: "string \<Rightarrow> string \<Rightarrow> string \<Rightarrow> string list \<Rightarrow> string list" where
  "build_cmd repo ttl body lbls =
     foldl (\<lambda>cmd label. cmd @ [''--label'', label])
       [''gh'', ''issue'', ''create'',
        ''--repo'', repo,
        ''--title'', ttl,
        ''--body'', body,
        ''--assignee'', ''@me'']
       lbls"

definition create_issue :: "env \<Rightarrow> string \<Rightarrow> task \<Rightarrow> event list \<Rightarrow> (py_error + bool) \<times> event list" where
  "create_issue e repo task tr =
     (case id_key task of
        None \<Rightarrow> (Inl (KeyError ''id''), tr)
      | Some i \<Rightarrow>
     (case title task of
        None \<Rightarrow> (Inl (KeyError ''title''), tr)
      | Some t \<Rightarrow>
     (let ttl = ''['' @ i @ ''] '' @ t in
      case create_issue_body task of
        Inl x \<Rightarrow> (Inl x, tr)
      | Inr body \<Rightarrow>
     (case labels task of
        None \<Rightarrow> (Inl (KeyError ''labels''), tr)
      | Some lbls \<Rightarrow>
     (let tr = py_print (''Creating issue: '' @ ttl) tr;
          cmd = build_cmd repo ttl body lbls in
      case subprocess_run e cmd tr of
        (Completed returncode out err, tr) \<Rightarrow>
          if returncode = 0
          then (Inr True, py_print (''  '' @ check_mark @ '' Created '' @ i @ '': '' @ py_strip out) tr)
          else (Inr False, py_print (''  '' @ ballot_x @ '' Failed to create '' @ i @ '': '' @ err) tr)
      | (SpawnError x, tr) \<Rightarrow> (Inl x, tr))))))"

text \<open>
  The loop of lines 132 to 136, with the two counters. An exception that leaves
  \<^verbatim>\<open>create_issue\<close> leaves the loop.
\<close>

fun create_loop ::
  "env \<Rightarrow> string \<Rightarrow> task list \<Rightarrow> int \<Rightarrow> int \<Rightarrow> event list \<Rightarrow> (py_error + int \<times> int) \<times> event list" where
  "create_loop e repo [] created failed tr = (Inr (created, failed), tr)"
| "create_loop e repo (task # rest) created failed tr =
     (case create_issue e repo task tr of
        (Inl x, tr) \<Rightarrow> (Inl x, tr)
      | (Inr ok, tr) \<Rightarrow>
          if ok then create_loop e repo rest (created + 1) failed tr
          else create_loop e repo rest created (failed + 1) tr)"

definition rocket :: string where
  "rocket = [CHR 0xF0, CHR 0x9F, CHR 0x9A, CHR 0x80]"

definition page_icon :: string where
  "page_icon = [CHR 0xF0, CHR 0x9F, CHR 0x93, CHR 0x84]"

definition package_icon :: string where
  "package_icon = [CHR 0xF0, CHR 0x9F, CHR 0x93, CHR 0xA6]"

definition clipboard_icon :: string where
  "clipboard_icon = [CHR 0xF0, CHR 0x9F, CHR 0x93, CHR 0x8B]"

definition green_check :: string where
  "green_check = [CHR 0xE2, CHR 0x9C, CHR 0x85]"

definition link_icon :: string where
  "link_icon = [CHR 0xF0, CHR 0x9F, CHR 0x94, CHR 0x97]"

definition banner :: string where
  "banner = rocket @ '' Snes9xWasm Implementation - GitHub Issues Creator\<newline>''"

definition prompt_text :: string where
  "prompt_text = ''Create all issues? (y/N): ''"

text \<open>The summary of lines 139 to 150, printed after the loop.\<close>

definition summary ::
  "project_meta \<Rightarrow> string \<Rightarrow> task list \<Rightarrow> int \<Rightarrow> int \<Rightarrow> event list \<Rightarrow> outcome \<times> event list" where
  "summary proj repo task_list created failed tr =
     (let tr = py_print (''\<newline>'' @ green_check @ '' Summary:'') tr;
          tr = py_print (''   Created: '' @ str_int created) tr;
          tr = py_print (''   Failed: '' @ str_int failed) tr;
          tr = py_print (''   Total: '' @ str_int (int (length task_list))) tr in
      if created > 0
      then
        (let tr = py_print (''\<newline>'' @ link_icon @ '' View issues: https://github.com/'' @ repo @ ''/issues'') tr;
             tr = py_print (''\<newline>'' @ clipboard_icon @ '' Next steps:'') tr;
             tr = py_print ''   1. Create project board'' tr in
         case milestone proj of
           None \<Rightarrow> (Uncaught (KeyError ''milestone''), tr)
         | Some m \<Rightarrow>
             (let tr = py_print (''   2. Set up milestone: '' @ m) tr;
                  tr = py_print ''   3. Organize issues into sprints'' tr;
                  tr = py_print ''   4. Begin Sprint 1!'' tr in
              (Exited 0, tr)))
      else (Exited 0, tr))"

definition main :: "env \<Rightarrow> outcome \<times> event list" where
  "main e =
     (let tr = py_print banner [] in
      case check_gh_cli e tr of
        (Inl x, tr) \<Rightarrow> (Uncaught x, tr)
      | (Inr ok, tr) \<Rightarrow>
          if \<not> ok then (Exited 1, tr)
          else
     (let tr = py_print (page_icon @ '' Loading issue data...'') tr in
      case load_issue_data e tr of
        (Inl x, tr) \<Rightarrow> (Uncaught x, tr)
      | (Inr data, tr) \<Rightarrow>
     (case project data of
        None \<Rightarrow> (Uncaught (KeyError ''project''), tr)
      | Some proj \<Rightarrow>
     (case repository proj of
        None \<Rightarrow> (Uncaught (KeyError ''repository''), tr)
      | Some repo \<Rightarrow>
     (case tasks data of
        None \<Rightarrow> (Uncaught (KeyError ''tasks''), tr)
      | Some task_list \<Rightarrow>
     (let tr = py_print (package_icon @ '' Repository: '' @ repo) tr;
          tr = py_print (clipboard_icon @ '' Total tasks: '' @ str_int (int (length task_list)) @ ''\<newline>'') tr in
      case py_input e prompt_text tr of
        (Inl x, tr) \<Rightarrow> (Uncaught x, tr)
      | (Inr response, tr) \<Rightarrow>
          if py_lower response \<noteq> ''y'' then (Exited 0, py_print ''Cancelled.'' tr)
          else
     (case create_loop e repo task_list 0 0 tr of
        (Inl x, tr) \<Rightarrow> (Uncaught x, tr)
      | (Inr (created, failed), tr) \<Rightarrow> summary proj repo task_list created failed tr)))))))"

section \<open>Notions used to state the properties\<close>

text \<open>A task record that has all seven keys.\<close>

definition valid_task :: "task \<Rightarrow> bool" where
  "valid_task t =
     (id_key t \<noteq> None \<and> title t \<noteq> None \<and> objective t \<noteq> None \<and> prerequisites t \<noteq> None \<and>
      acceptanceCriteria t \<noteq> None \<and> timeEstimate t \<noteq> None \<and> labels t \<noteq> None)"

definition is_create_cmd :: "string list \<Rightarrow> bool" where
  "is_create_cmd cmd = (take 3 cmd = [''gh'', ''issue'', ''create''])"

text \<open>The issue-creation invocations of a trace, in order, each with its result.\<close>

fun creation_calls :: "event list \<Rightarrow> (string list \<times> run_result) list" where
  "creation_calls [] = []"
| "creation_calls (Spawn cmd r # tr) =
     (if is_create_cmd cmd then (cmd, r) # creation_calls tr else creation_calls tr)"
| "creation_calls (Print s # tr) = creation_calls tr"
| "creation_calls (OpenFile # tr) = creation_calls tr"
| "creation_calls (Input s # tr) = creation_calls tr"

text \<open>The title and the body that an issue-creation command hands to the client.\<close>

fun issue_of :: "string list \<Rightarrow> (string \<times> string) option" where
  "issue_of (a # b # c # d # repo # f # ttl # h # body # rest) =
     (if [a, b, c, d, f, h] = [''gh'', ''issue'', ''create'', ''--repo'', ''--title'', ''--body'']
      then Some (ttl, body) else None)"
| "issue_of cmd = None"

text \<open>The cases in which \<^verbatim>\<open>check_gh_cli\<close> answers \<^verbatim>\<open>False\<close> in \<^verbatim>\<open>main\<close>.\<close>

definition preflight_fails :: "env \<Rightarrow> bool" where
  "preflight_fails e =
     (case run_cmd e [Print banner] auth_cmd of
        Completed rc out err \<Rightarrow> rc \<noteq> 0
      | SpawnError x \<Rightarrow> x = FileNotFoundError)"

definition preflight_passes :: "env \<Rightarrow> bool" where
  "preflight_passes e =
     (case run_cmd e [Print banner] auth_cmd of
        Completed rc out err \<Rightarrow> rc = 0
      | SpawnError x \<Rightarrow> False)"

text \<open>The probe of the client, the opening of the task file, the confirmation prompt.\<close>

fun is_probe :: "event \<Rightarrow> bool" where
  "is_probe (Spawn cmd r) = (cmd = auth_cmd)"
| "is_probe ev = False"

fun is_load :: "event \<Rightarrow> bool" where
  "is_load OpenFile = True"
| "is_load ev = False"

fun is_prompt :: "event \<Rightarrow> bool" where
  "is_prompt (Input s) = True"
| "is_prompt ev = False"

text \<open>\<open>precedes P Q tr\<close>: no \<open>Q\<close> event of the trace comes before its first \<open>P\<close> event.\<close>

fun precedes :: "(event \<Rightarrow> bool) \<Rightarrow> (event \<Rightarrow> bool) \<Rightarrow> event list \<Rightarrow> bool" where
  "precedes P Q [] = True"
| "precedes P Q (ev # tr) = (P ev \<or> (\<not> Q ev \<and> precedes P Q tr))"

text \<open>
  An issue-creation call that the client finished with return code 0, and one that it
  finished with another return code.
\<close>

definition succeeded :: "string list \<times> run_result \<Rightarrow> bool" where
  "succeeded call = (case snd call of Completed rc out err \<Rightarrow> rc = 0 | SpawnError x \<Rightarrow> False)"

definition failed_call :: "string list \<times> run_result \<Rightarrow> bool" where
  "failed_call call = (case snd call of Completed rc out err \<Rightarrow> rc \<noteq> 0 | SpawnError x \<Rightarrow> False)"

text \<open>The command that \<^verbatim>\<open>create_issue\<close> builds for a task that has all its keys.\<close>

definition task_cmd :: "string \<Rightarrow> task \<Rightarrow> string list option" where
  "task_cmd repo t =
     (case id_key t of None \<Rightarrow> None | Some i \<Rightarrow>
     (case title t of None \<Rightarrow> None | Some ti \<Rightarrow>
     (case create_issue_body t of Inl x \<Rightarrow> None | Inr body \<Rightarrow>
     (case labels t of None \<Rightarrow> None | Some lbls \<Rightarrow>
        Some (build_cmd repo (''['' @ i @ ''] '' @ ti) body lbls)))))"

text \<open>The four lines that open the summary.\<close>

definition summary_lines :: "int \<Rightarrow> int \<Rightarrow> int \<Rightarrow> event list" where
  "summary_lines created failed n_total =
     [Print (''\<newline>'' @ green_check @ '' Summary:''),
      Print (''   Created: '' @ str_int created),
      Print (''   Failed: '' @ str_int failed),
      Print (''   Total: '' @ str_int n_total)]"


text \<open>
  The lines of a text, cut at every line break as \<^verbatim>\<open>str.split\<close> does: a text that ends
  with a line break has an empty last line.
\<close>

fun split_lines :: "string \<Rightarrow> string list" where
  "split_lines [] = [[]]"
| "split_lines (c # cs) =
     (if c = CHR 0x0A then [] # split_lines cs
      else (case split_lines cs of [] \<Rightarrow> [[c]] | l # ls \<Rightarrow> (c # l) # ls))"

text \<open>A string without a line break.\<close>

definition single_line :: "string \<Rightarrow> bool" where
  "single_line s = (CHR 0x0A \<notin> set s)"

text \<open>
  The section of a header in a list of lines: the lines that follow the first line equal to
  the header, up to the next empty line.
\<close>

definition section_lines :: "string \<Rightarrow> string list \<Rightarrow> string list" where
  "section_lines header ls = takeWhile (\<lambda>l. l \<noteq> []) (tl (dropWhile (\<lambda>l. l \<noteq> header) ls))"

text \<open>The lines of the rendered body of a task (none when the body cannot be rendered).\<close>

definition body_lines :: "task \<Rightarrow> string list" where
  "body_lines t = (case create_issue_body t of Inl x \<Rightarrow> [] | Inr body \<Rightarrow> split_lines body)"

text \<open>Lines put together again, each followed by a line break.\<close>

definition join_lines :: "string list \<Rightarrow> string" where
  "join_lines ls = concat (map (\<lambda>l. l @ ''\<newline>'') ls)"

text \<open>The bullet lines of a prerequisite list and the checklist lines of a criteria list.\<close>

definition prereq_bullets :: "string list \<Rightarrow> string list" where
  "prereq_bullets prereqs = (if prereqs = [] then [''- None''] else map (\<lambda>p. ''- '' @ p) prereqs)"

definition criteria_checks :: "string list \<Rightarrow> string list" where
  "criteria_checks criteria = map (\<lambda>c. ''- [ ] '' @ c) criteria"

section \<open>Example inputs\<close>

text \<open>
  Task records, clients, documents and environments on which the properties are evaluated:
  the one-task example of the specification, a client that is absent, one that is not
  logged in, one whose second creation call fails, a missing task file, a declined
  confirmation, a record without objective, and records with a line break inside an entry.
\<close>

definition task_T1 :: task where
  "task_T1 = \<lparr>id_key = Some ''T1'', title = Some ''Add X'', objective = Some ''Do X'',
     prerequisites = Some [], acceptanceCriteria = Some [''X works''],
     timeEstimate = Some ''1h'', labels = Some [''feature'']\<rparr>"

definition task_T2 :: task where
  "task_T2 = \<lparr>id_key = Some ''T2'', title = Some ''Add Y'', objective = Some ''Do X'',
     prerequisites = Some [], acceptanceCriteria = Some [''X works''],
     timeEstimate = Some ''1h'', labels = Some [''bug'', ''ui'']\<rparr>"

definition gh_ok :: "event list \<Rightarrow> string list \<Rightarrow> run_result" where
  "gh_ok tr cmd = Completed 0 ''https://github.com/org/repo/issues/1\<newline>'' ''''"


definition gh_logged_out :: "event list \<Rightarrow> string list \<Rightarrow> run_result" where
  "gh_logged_out tr cmd = Completed 1 '''' ''You are not logged into any GitHub hosts.''"

definition doc_example :: document where
  "doc_example = \<lparr>project = Some \<lparr>repository = Some ''org/repo'', milestone = Some ''M1''\<rparr>,
     tasks = Some [task_T1]\<rparr>"

definition env_example :: env where
  "env_example = \<lparr>run_cmd = gh_ok, task_file = Json doc_example, stdin = Some ''y''\<rparr>"


definition env_logged_out :: env where
  "env_logged_out = \<lparr>run_cmd = gh_logged_out, task_file = Json doc_example, stdin = Some ''y''\<rparr>"

definition env_missing_file :: env where
  "env_missing_file = \<lparr>run_cmd = gh_ok, task_file = Missing, stdin = Some ''y''\<rparr>"

definition env_declined :: env where
  "env_declined = \<lparr>run_cmd = gh_ok, task_file = Json doc_example, stdin = Some ''yes''\<rparr>"

definition task_T3 :: task where
  "task_T3 = \<lparr>id_key = Some ''T3'', title = Some ''Add Z'', objective = Some ''Do Z'',
     prerequisites = Some [''T1'', ''T2''], acceptanceCriteria = Some [''A'', ''B''],
     timeEstimate = Some ''2h'', labels = Some []\<rparr>"

definition gh_fail_second :: "event list \<Rightarrow> string list \<Rightarrow> run_result" where
  "gh_fail_second tr cmd =
     (if is_create_cmd cmd \<and> length (creation_calls tr) = 1
      then Completed 1 '''' ''HTTP 422: Validation Failed''
      else Completed 0 ''https://github.com/org/repo/issues/1\<newline>'' '''')"

definition doc_three :: document where
  "doc_three = \<lparr>project = Some \<lparr>repository = Some ''org/repo'', milestone = Some ''M1''\<rparr>,
     tasks = Some [task_T1, task_T2, task_T3]\<rparr>"

definition env_three :: env where
  "env_three = \<lparr>run_cmd = gh_fail_second, task_file = Json doc_three, stdin = Some ''Y''\<rparr>"




definition task_multiline_prereq :: task where
  "task_multiline_prereq = \<lparr>id_key = Some ''T4'', title = Some ''Add W'', objective = Some ''Do W'',
     prerequisites = Some [''x\<newline>- y''], acceptanceCriteria = Some [''W works''],
     timeEstimate = Some ''1h'', labels = Some []\<rparr>"

definition task_multiline_criterion :: task where
  "task_multiline_criterion = \<lparr>id_key = Some ''T5'', title = Some ''Add V'', objective = Some ''Do V'',
     prerequisites = Some [], acceptanceCriteria = Some [''a\<newline>- [ ] b''],
     timeEstimate = Some ''1h'', labels = Some []\<rparr>"

section \<open>Basic facts\<close>

subsection \<open>Traces and commands\<close>

lemma creation_calls_append:
  "creation_calls (xs @ ys) = creation_calls xs @ creation_calls ys"
  by (induction xs rule: creation_calls.induct) simp_all

lemma creation_calls_print [simp]: "creation_calls (py_print s tr) = creation_calls tr"
  by (simp add: py_print_def creation_calls_append)

lemma foldl_append_concat:
  "foldl (\<lambda>acc x. acc @ f x) acc xs = acc @ concat (map f xs)"
  by (induction xs arbitrary: acc) simp_all

lemma build_cmd_eq:
  "build_cmd repo ttl body lbls =
     [''gh'', ''issue'', ''create'', ''--repo'', repo, ''--title'', ttl, ''--body'', body,
      ''--assignee'', ''@me''] @ concat (map (\<lambda>label. [''--label'', label]) lbls)"
  unfolding build_cmd_def by (rule foldl_append_concat)

lemma is_create_build_cmd [simp]: "is_create_cmd (build_cmd repo ttl body lbls)"
  by (simp add: build_cmd_eq is_create_cmd_def)

lemma issue_of_build_cmd [simp]: "issue_of (build_cmd repo ttl body lbls) = Some (ttl, body)"
  by (simp add: build_cmd_eq)

lemma not_create_auth_cmd [simp]: "\<not> is_create_cmd auth_cmd"
  by (simp add: is_create_cmd_def auth_cmd_def)

text \<open>
  What \<^verbatim>\<open>create_issue\<close> does for a task with all its keys: one line, one command, one
  line; no exception unless the client cannot be started.
\<close>

lemma create_issue_valid:
  assumes "id_key t = Some i" "title t = Some ti" "create_issue_body t = Inr body"
    "labels t = Some lbls"
  shows "create_issue e repo t tr =
    (let tr1 = tr @ [Print (''Creating issue: '' @ ''['' @ i @ ''] '' @ ti)];
         cmd = build_cmd repo (''['' @ i @ ''] '' @ ti) body lbls;
         r = run_cmd e tr1 cmd;
         tr2 = tr1 @ [Spawn cmd r]
     in case r of
          Completed rc out err \<Rightarrow>
            if rc = 0
            then (Inr True, tr2 @ [Print (''  '' @ check_mark @ '' Created '' @ i @ '': '' @ py_strip out)])
            else (Inr False, tr2 @ [Print (''  '' @ ballot_x @ '' Failed to create '' @ i @ '': '' @ err)])
        | SpawnError x \<Rightarrow> (Inl x, tr2))"
  using assms
  by (simp add: create_issue_def subprocess_run_def py_print_def Let_def split: run_result.split)

lemma create_issue_body_valid:
  assumes "valid_task t"
  shows "\<exists>body. create_issue_body t = Inr body"
  using assms by (auto simp: valid_task_def create_issue_body_def Let_def)

subsection \<open>The affirmative answer\<close>

text \<open>Only \<^verbatim>\<open>y\<close> and \<^verbatim>\<open>Y\<close> are mapped to \<^verbatim>\<open>y\<close>.\<close>

lemma lower_char_y: "lower_char c = CHR ''y'' \<longleftrightarrow> c = CHR ''y'' \<or> c = CHR ''Y''"
proof -
  have y: "(d = CHR ''y'') = ((of_char d :: nat) = 121)" for d
  proof -
    have "(of_char (CHR ''y'') :: nat) = 121" by simp
    then show ?thesis by (metis of_char_eq_iff)
  qed
  have Y: "(d = CHR ''Y'') = ((of_char d :: nat) = 89)" for d
  proof -
    have "(of_char (CHR ''Y'') :: nat) = 89" by simp
    then show ?thesis by (metis of_char_eq_iff)
  qed
  have lt: "(of_char c :: nat) < 256" by simp
  show ?thesis
    unfolding y Y using lt by (auto simp: lower_char_def Let_def)
qed

lemma py_lower_y: "py_lower r = ''y'' \<longleftrightarrow> r = ''y'' \<or> r = ''Y''"
  by (cases r) (auto simp: py_lower_def lower_char_y)

subsection \<open>The summary and the growth of the trace\<close>

lemma summary_outcome:
  "fst (summary proj repo ts c f tr) = Exited 0 \<or>
   fst (summary proj repo ts c f tr) = Uncaught (KeyError ''milestone'')"
  by (simp add: summary_def Let_def split: option.split)

lemma summary_calls [simp]:
  "creation_calls (snd (summary proj repo ts c f tr)) = creation_calls tr"
  by (simp add: summary_def Let_def split: option.split)

lemma create_issue_extends: "\<exists>ys. snd (create_issue e repo t tr) = tr @ ys"
  by (simp add: create_issue_def subprocess_run_def py_print_def Let_def
      split: option.split sum.split run_result.split)

lemma create_loop_extends: "\<exists>ys. snd (create_loop e repo ts c f tr) = tr @ ys"
proof (induction ts arbitrary: c f tr)
  case Nil
  then show ?case by simp
next
  case (Cons t ts)
  obtain r tr1 where r: "create_issue e repo t tr = (r, tr1)"
    by (cases "create_issue e repo t tr")
  with create_issue_extends [of e repo t tr] obtain ys where ys: "tr1 = tr @ ys"
    by auto
  show ?case
  proof (cases r)
    case (Inl x)
    with r ys show ?thesis by simp
  next
    case (Inr ok)
    from Cons.IH [of "c + 1" f tr1] Cons.IH [of c "f + 1" tr1] r ys Inr show ?thesis
      by (cases ok) auto
  qed
qed

lemma create_loop_result_extends:
  "create_loop e repo ts c f tr = (r, tr') \<Longrightarrow> \<exists>ys. tr' = tr @ ys"
  using create_loop_extends [of e repo ts c f tr] by simp

subsection \<open>The loop over complete task records\<close>

text \<open>
  When every record has its keys and every call returns, the loop makes one call per task
  and its two counters count the calls by their result.
\<close>

lemma create_loop_counts:
  assumes "list_all valid_task ts"
    and "\<forall>tr cmd. is_create_cmd cmd \<longrightarrow> (\<exists>rc out err. run_cmd e tr cmd = Completed rc out err)"
  shows "\<exists>new tr'.
           create_loop e repo ts c f tr =
             (Inr (c + int (length (filter succeeded new)), f + int (length (filter failed_call new))), tr') \<and>
           creation_calls tr' = creation_calls tr @ new \<and>
           map (Some \<circ> fst) new = map (task_cmd repo) ts \<and>
           length (filter succeeded new) + length (filter failed_call new) = length ts"
  using assms(1)
proof (induction ts arbitrary: c f tr)
  case Nil
  then show ?case by simp
next
  case (Cons t ts)
  from Cons.prems have vt: "valid_task t" and vts: "list_all valid_task ts"
    by simp_all
  from vt obtain i ti lbls where fld: "id_key t = Some i" "title t = Some ti" "labels t = Some lbls"
    by (auto simp: valid_task_def)
  from vt obtain body where body: "create_issue_body t = Inr body"
    using create_issue_body_valid by blast
  define tr1 where "tr1 = tr @ [Print (''Creating issue: '' @ ''['' @ i @ ''] '' @ ti)]"
  define cmd where "cmd = build_cmd repo (''['' @ i @ ''] '' @ ti) body lbls"
  have tc: "task_cmd repo t = Some cmd"
    by (simp add: task_cmd_def fld body cmd_def)
  from assms(2) obtain rc out err where r: "run_cmd e tr1 cmd = Completed rc out err"
    unfolding cmd_def using is_create_build_cmd by blast
  show ?case
  proof (cases "rc = 0")
    case True
    define tr2 where
      "tr2 = tr1 @ [Spawn cmd (Completed rc out err)] @
             [Print (''  '' @ check_mark @ '' Created '' @ i @ '': '' @ py_strip out)]"
    have step: "create_issue e repo t tr = (Inr True, tr2)"
      using r True unfolding tr2_def tr1_def cmd_def
      by (simp add: create_issue_valid [OF fld(1) fld(2) body fld(3)] Let_def)
    have calls: "creation_calls tr2 = creation_calls tr @ [(cmd, Completed rc out err)]"
      by (simp add: tr2_def tr1_def creation_calls_append cmd_def)
    from Cons.IH [OF vts, of "c + 1" f tr2] obtain new tr' where
      ih: "create_loop e repo ts (c + 1) f tr2 =
             (Inr (c + 1 + int (length (filter succeeded new)), f + int (length (filter failed_call new))), tr')"
        "creation_calls tr' = creation_calls tr2 @ new"
        "map (Some \<circ> fst) new = map (task_cmd repo) ts"
        "length (filter succeeded new) + length (filter failed_call new) = length ts"
      by blast
    let ?new = "(cmd, Completed rc out err) # new"
    have "create_loop e repo (t # ts) c f tr =
            (Inr (c + int (length (filter succeeded ?new)), f + int (length (filter failed_call ?new))), tr')"
      using step ih(1) True by (simp add: succeeded_def failed_call_def)
    moreover have "creation_calls tr' = creation_calls tr @ ?new"
      using ih(2) calls by simp
    moreover have "map (Some \<circ> fst) ?new = map (task_cmd repo) (t # ts)"
      using ih(3) tc by simp
    moreover have "length (filter succeeded ?new) + length (filter failed_call ?new) = length (t # ts)"
      using ih(4) True by (simp add: succeeded_def failed_call_def)
    ultimately show ?thesis by blast
  next
    case False
    define tr2 where
      "tr2 = tr1 @ [Spawn cmd (Completed rc out err)] @
             [Print (''  '' @ ballot_x @ '' Failed to create '' @ i @ '': '' @ err)]"
    have step: "create_issue e repo t tr = (Inr False, tr2)"
      using r False unfolding tr2_def tr1_def cmd_def
      by (simp add: create_issue_valid [OF fld(1) fld(2) body fld(3)] Let_def)
    have calls: "creation_calls tr2 = creation_calls tr @ [(cmd, Completed rc out err)]"
      by (simp add: tr2_def tr1_def creation_calls_append cmd_def)
    from Cons.IH [OF vts, of c "f + 1" tr2] obtain new tr' where
      ih: "create_loop e repo ts c (f + 1) tr2 =
             (Inr (c + int (length (filter succeeded new)), f + 1 + int (length (filter failed_call new))), tr')"
        "creation_calls tr' = creation_calls tr2 @ new"
        "map (Some \<circ> fst) new = map (task_cmd repo) ts"
        "length (filter succeeded new) + length (filter failed_call new) = length ts"
      by blast
    let ?new = "(cmd, Completed rc out err) # new"
    have "create_loop e repo (t # ts) c f tr =
            (Inr (c + int (length (filter succeeded ?new)), f + int (length (filter failed_call ?new))), tr')"
      using step ih(1) False by (simp add: succeeded_def failed_call_def)
    moreover have "creation_calls tr' = creation_calls tr @ ?new"
      using ih(2) calls by simp
    moreover have "map (Some \<circ> fst) ?new = map (task_cmd repo) (t # ts)"
      using ih(3) tc by simp
    moreover have "length (filter succeeded ?new) + length (filter failed_call ?new) = length (t # ts)"
      using ih(4) False by (simp add: succeeded_def failed_call_def)
    ultimately show ?thesis by blast
  qed
qed

lemma summary_with_milestone:
  assumes "milestone p = Some m"
  shows "\<exists>post. summary p repo ts c f tr =
           (Exited 0, tr @ summary_lines c f (int (length ts)) @ post)"
  using assms by (simp add: summary_def summary_lines_def py_print_def Let_def)

subsection \<open>Incomplete task records\<close>





subsection \<open>Lines of a text\<close>

lemma split_lines_not_Nil [simp]: "split_lines s \<noteq> []"
  by (induction s) (auto split: list.split)

lemma split_lines_append_newline:
  "split_lines (a @ CHR 0x0A # b) = split_lines a @ split_lines b"
proof (induction a)
  case Nil
  then show ?case by simp
next
  case (Cons c a)
  obtain l ls where "split_lines a = l # ls"
    by (cases "split_lines a") simp_all
  with Cons show ?case by simp
qed

lemma split_lines_single: "single_line s \<Longrightarrow> split_lines s = [s]"
  by (induction s) (auto simp: single_line_def)

lemma split_lines_join:
  "\<forall>l\<in>set ls. single_line l \<Longrightarrow> split_lines (join_lines ls @ rest) = ls @ split_lines rest"
proof (induction ls)
  case Nil
  then show ?case by (simp add: join_lines_def)
next
  case (Cons l ls)
  then have "split_lines (join_lines ls @ rest) = ls @ split_lines rest" by simp
  moreover have "join_lines (l # ls) @ rest = l @ CHR 0x0A # (join_lines ls @ rest)"
    by (simp add: join_lines_def)
  moreover have "split_lines l = [l]"
    using Cons.prems by (simp add: split_lines_single)
  ultimately show ?case
    by (simp add: split_lines_append_newline)
qed

lemma split_lines_join_all:
  "\<forall>l\<in>set ls. single_line l \<Longrightarrow> split_lines (join_lines ls) = ls @ [[]]"
  using split_lines_join [of ls "[]"] by simp

lemma takeWhile_section:
  "\<forall>l\<in>set sec. l \<noteq> [] \<Longrightarrow> takeWhile (\<lambda>l. l \<noteq> []) (sec @ [] # rest) = sec"
  by (induction sec) auto

lemma section_lines_found:
  "\<forall>l\<in>set before. l \<noteq> header \<Longrightarrow> \<forall>l\<in>set sec. l \<noteq> [] \<Longrightarrow>
   section_lines header (before @ header # sec @ [] # rest) = sec"
  by (induction before) (auto simp: section_lines_def takeWhile_section)

subsection \<open>Lines of the body\<close>

text \<open>
  The body is the objective between two fixed lines, then the section headers with the
  bullet and checklist entries, each followed by a line break, then the rest.
\<close>

lemma body_split:
  assumes "objective t = Some obj" "prerequisites t = Some pre"
    "acceptanceCriteria t = Some acs" "timeEstimate t = Some te"
  shows "\<exists>footer. create_issue_body t =
           Inr (''## Objective'' @ CHR 0x0A # obj @ CHR 0x0A #
                join_lines ([[], ''## Prerequisites''] @ prereq_bullets pre @
                            [[], ''## Acceptance Criteria'']) @
                join_lines (criteria_checks acs) @ CHR 0x0A # footer)"
  using assms
  by (simp add: create_issue_body_def Let_def foldl_append_concat prereq_bullets_def
      criteria_checks_def join_lines_def comp_def)

lemma single_line_bullets:
  "\<forall>p\<in>set pre. single_line p \<Longrightarrow> \<forall>l\<in>set (prereq_bullets pre). single_line l"
  by (auto simp: prereq_bullets_def single_line_def)

lemma single_line_checks:
  "\<forall>c\<in>set acs. single_line c \<Longrightarrow> \<forall>l\<in>set (criteria_checks acs). single_line l"
  by (auto simp: criteria_checks_def single_line_def)

lemma body_lines_prereqs:
  assumes "objective t = Some obj" "prerequisites t = Some pre"
    "acceptanceCriteria t = Some acs" "timeEstimate t = Some te"
    and "\<forall>p\<in>set pre. single_line p"
  shows "\<exists>rest. body_lines t =
           (''## Objective'' # split_lines obj @ [[]]) @
           ''## Prerequisites'' # prereq_bullets pre @ [] # rest"
proof -
  from body_split [OF assms(1-4)] obtain footer where
    b: "create_issue_body t =
           Inr (''## Objective'' @ CHR 0x0A # obj @ CHR 0x0A #
                join_lines ([[], ''## Prerequisites''] @ prereq_bullets pre @
                            [[], ''## Acceptance Criteria'']) @
                join_lines (criteria_checks acs) @ CHR 0x0A # footer)"
    by blast
  have sl: "\<forall>l\<in>set ([[], ''## Prerequisites''] @ prereq_bullets pre @ [[], ''## Acceptance Criteria'']).
      single_line l"
    using single_line_bullets [OF assms(5)] by (auto simp: single_line_def)
  have h: "split_lines ''## Objective'' = [''## Objective'']"
    by (rule split_lines_single) (simp add: single_line_def)
  show ?thesis
    unfolding body_lines_def b
    by (simp only: sum.case split_lines_append_newline split_lines_join [OF sl] h) simp
qed

lemma body_lines_criteria:
  assumes "objective t = Some obj" "prerequisites t = Some pre"
    "acceptanceCriteria t = Some acs" "timeEstimate t = Some te"
    and "\<forall>p\<in>set pre. single_line p" and "\<forall>c\<in>set acs. single_line c"
  shows "\<exists>rest. body_lines t =
           (''## Objective'' # split_lines obj @ [[], ''## Prerequisites''] @ prereq_bullets pre @ [[]]) @
           ''## Acceptance Criteria'' # criteria_checks acs @ [] # rest"
proof -
  from body_split [OF assms(1-4)] obtain footer where
    b: "create_issue_body t =
           Inr (''## Objective'' @ CHR 0x0A # obj @ CHR 0x0A #
                join_lines ([[], ''## Prerequisites''] @ prereq_bullets pre @
                            [[], ''## Acceptance Criteria'']) @
                join_lines (criteria_checks acs) @ CHR 0x0A # footer)"
    by blast
  have sl: "\<forall>l\<in>set ([[], ''## Prerequisites''] @ prereq_bullets pre @ [[], ''## Acceptance Criteria'']).
      single_line l"
    using single_line_bullets [OF assms(5)] by (auto simp: single_line_def)
  have h: "split_lines ''## Objective'' = [''## Objective'']"
    by (rule split_lines_single) (simp add: single_line_def)
  show ?thesis
    unfolding body_lines_def b
    by (simp only: sum.case split_lines_append_newline split_lines_join [OF sl]
        split_lines_join_all [OF single_line_checks [OF assms(6)]] h) simp
qed

section \<open>Invalid input\<close>




section \<open>Order of the steps\<close>

text \<open>
  Claim C2, as amended. In every run the preflight check comes before the loading of the
  task file: \<^verbatim>\<open>main\<close> always probes the client, no task file is opened before that probe,
  the file is opened only when the probe passed, and no confirmation prompt is written
  before the file has been opened.
\<close>

theorem probe_before_load_before_prompt:
  "list_ex is_probe (snd (main e)) \<and>
   precedes is_probe is_load (snd (main e)) \<and>
   precedes is_load is_prompt (snd (main e)) \<and>
   (list_ex is_load (snd (main e)) \<longrightarrow> preflight_passes e)"
  by (auto simp add: main_def check_gh_cli_def load_issue_data_def py_input_def
      subprocess_run_def py_print_def Let_def summary_def preflight_passes_def
      split: run_result.split file_state.split option.split prod.split sum.split
      dest!: create_loop_result_extends)

text \<open>
  The claim as stated puts the loader first. In the run of the example both steps happen,
  and the probe is not preceded by the opening of the file.
\<close>

theorem load_before_probe_counterexample:
  "list_ex is_probe (snd (main env_example)) \<and> list_ex is_load (snd (main env_example)) \<and>
   \<not> precedes is_load is_probe (snd (main env_example))"
  by code_simp

theorem probe_before_load_before_prompt_witness:
  "precedes is_probe is_load (snd (main env_declined)) \<and>
   precedes is_load is_prompt (snd (main env_declined)) \<and>
   list_ex is_probe (snd (main env_declined)) \<and> list_ex is_load (snd (main env_declined)) \<and>
   list_ex is_prompt (snd (main env_declined)) \<and> preflight_passes env_declined"
proof -
  have "list_ex is_load (snd (main env_declined)) \<and> list_ex is_prompt (snd (main env_declined))"
    by code_simp
  with probe_before_load_before_prompt [of env_declined] show ?thesis
    by simp
qed

section \<open>The batch\<close>

text \<open>
  Claim C3. When the preflight check passes, the document has its project data and task
  records with all their keys, the answer is \<^verbatim>\<open>y\<close> or \<^verbatim>\<open>Y\<close>, and every creation call
  returns with some exit status, then whatever the exit statuses are: one creation command
  is run for every task, in the order of the file; the calls with status 0 and the calls
  with another status add up to the number of tasks; the summary prints these two counts
  and the number of tasks; and the process returns with status 0.
\<close>

theorem batch_continues_after_failure:
  assumes probe: "run_cmd e [Print banner] auth_cmd = Completed 0 out0 err0"
    and doc: "task_file e = Json d" "project d = Some p" "repository p = Some repo"
      "milestone p = Some m" "tasks d = Some ts"
    and valid: "list_all valid_task ts"
    and yes: "stdin e = Some r" "r = ''y'' \<or> r = ''Y''"
    and completes:
      "\<forall>tr cmd. is_create_cmd cmd \<longrightarrow> (\<exists>rc out err. run_cmd e tr cmd = Completed rc out err)"
  shows "fst (main e) = Exited 0 \<and>
         map (Some \<circ> fst) (creation_calls (snd (main e))) = map (task_cmd repo) ts \<and>
         length (filter succeeded (creation_calls (snd (main e)))) +
           length (filter failed_call (creation_calls (snd (main e)))) = length ts \<and>
         (\<exists>before after. snd (main e) =
            before @
            summary_lines (int (length (filter succeeded (creation_calls (snd (main e))))))
              (int (length (filter failed_call (creation_calls (snd (main e))))))
              (int (length ts)) @
            after)"
proof -
  define tr0 where
    "tr0 = [Print banner, Spawn auth_cmd (Completed 0 out0 err0),
            Print (page_icon @ '' Loading issue data...''), OpenFile,
            Print (package_icon @ '' Repository: '' @ repo),
            Print (clipboard_icon @ '' Total tasks: '' @ str_int (int (length ts)) @ ''\<newline>''),
            Input prompt_text]"
  have no_calls: "creation_calls tr0 = []"
    by (simp add: tr0_def)
  have low: "py_lower r = ''y''"
    using yes(2) by (simp add: py_lower_y)
  have main_eq: "main e =
      (case create_loop e repo ts 0 0 tr0 of
         (Inl x, tr) \<Rightarrow> (Uncaught x, tr)
       | (Inr (created, failed), tr) \<Rightarrow> summary p repo ts created failed tr)"
    using probe doc yes(1) low unfolding tr0_def
    by (simp add: main_def check_gh_cli_def load_issue_data_def py_input_def subprocess_run_def
        py_print_def Let_def)
  from create_loop_counts [OF valid completes, of repo 0 0 tr0] obtain new tr' where
    loop: "create_loop e repo ts 0 0 tr0 =
             (Inr (int (length (filter succeeded new)), int (length (filter failed_call new))), tr')"
      and calls: "creation_calls tr' = new"
      and cmds: "map (Some \<circ> fst) new = map (task_cmd repo) ts"
      and total: "length (filter succeeded new) + length (filter failed_call new) = length ts"
    using no_calls by auto
  from summary_with_milestone [OF doc(4)] obtain post where
    sm: "summary p repo ts (int (length (filter succeeded new))) (int (length (filter failed_call new))) tr' =
           (Exited 0,
            tr' @ summary_lines (int (length (filter succeeded new)))
              (int (length (filter failed_call new))) (int (length ts)) @ post)"
    by blast
  have res: "main e =
      (Exited 0,
       tr' @ summary_lines (int (length (filter succeeded new)))
         (int (length (filter failed_call new))) (int (length ts)) @ post)"
    using main_eq loop sm by simp
  have "creation_calls (snd (main e)) = creation_calls (snd (summary p repo ts
      (int (length (filter succeeded new))) (int (length (filter failed_call new))) tr'))"
    using main_eq loop by simp
  then have all_calls: "creation_calls (snd (main e)) = new"
    using calls by simp
  show ?thesis
    unfolding all_calls using res cmds total by auto
qed

text \<open>
  Three tasks, the second creation call failing: the first and the third call are made and
  succeed, and the summary reports 2 created, 1 failed, 3 in total.
\<close>

theorem batch_continues_after_failure_witness:
  "list_all valid_task [task_T1, task_T2, task_T3] \<and>
   fst (main env_three) = Exited 0 \<and>
   map (Some \<circ> fst) (creation_calls (snd (main env_three))) =
     map (task_cmd ''org/repo'') [task_T1, task_T2, task_T3] \<and>
   map succeeded (creation_calls (snd (main env_three))) = [True, False, True] \<and>
   (\<exists>before after. snd (main env_three) = before @ summary_lines 2 1 3 @ after)"
proof -
  have probe: "run_cmd env_three [Print banner] auth_cmd =
      Completed 0 ''https://github.com/org/repo/issues/1\<newline>'' []"
    by (simp add: env_three_def gh_fail_second_def)
  have doc: "task_file env_three = Json doc_three"
    "project doc_three = Some \<lparr>repository = Some ''org/repo'', milestone = Some ''M1''\<rparr>"
    "repository \<lparr>repository = Some ''org/repo'', milestone = Some ''M1''\<rparr> = Some ''org/repo''"
    "milestone \<lparr>repository = Some ''org/repo'', milestone = Some ''M1''\<rparr> = Some ''M1''"
    "tasks doc_three = Some [task_T1, task_T2, task_T3]"
    by (simp_all add: env_three_def doc_three_def)
  have valid: "list_all valid_task [task_T1, task_T2, task_T3]"
    by (simp add: valid_task_def task_T1_def task_T2_def task_T3_def)
  have yes: "stdin env_three = Some ''Y''" "''Y'' = ''y'' \<or> ''Y'' = ''Y''"
    by (simp_all add: env_three_def)
  have completes: "\<forall>tr cmd. is_create_cmd cmd \<longrightarrow>
      (\<exists>rc out err. run_cmd env_three tr cmd = Completed rc out err)"
    by (simp add: env_three_def gh_fail_second_def)
  have counts: "map succeeded (creation_calls (snd (main env_three))) = [True, False, True] \<and>
     int (length (filter succeeded (creation_calls (snd (main env_three))))) = 2 \<and>
     int (length (filter failed_call (creation_calls (snd (main env_three))))) = 1"
    by code_simp
  from batch_continues_after_failure [OF probe doc valid yes completes] counts valid
  show ?thesis by simp
qed

section \<open>The confirmation gate\<close>

text \<open>
  Claim C4. For every confirmation input other than \<^verbatim>\<open>y\<close> or \<^verbatim>\<open>Y\<close> the run is cancelled:
  no issue-creation call is made, and whenever the prompt was reached the last line printed
  is the cancellation message and the process returns from \<^verbatim>\<open>main\<close> with status 0.
\<close>

theorem declined_confirmation_cancels:
  assumes "stdin e = Some r" "r \<noteq> ''y''" "r \<noteq> ''Y''"
  shows "creation_calls (snd (main e)) = [] \<and>
         (Input prompt_text \<in> set (snd (main e)) \<longrightarrow>
            fst (main e) = Exited 0 \<and> last (snd (main e)) = Print ''Cancelled.'')"
  using assms
  by (simp add: main_def check_gh_cli_def load_issue_data_def py_input_def subprocess_run_def
      py_print_def Let_def py_lower_y creation_calls_append
      split: run_result.split file_state.split option.split)

theorem declined_confirmation_cancels_witness:
  "stdin env_declined = Some ''yes'' \<and> creation_calls (snd (main env_declined)) = [] \<and>
   Input prompt_text \<in> set (snd (main env_declined)) \<and>
   fst (main env_declined) = Exited 0 \<and> last (snd (main env_declined)) = Print ''Cancelled.''"
  using declined_confirmation_cancels [of env_declined "''yes''"]
  by (simp add: env_declined_def main_def check_gh_cli_def load_issue_data_def py_input_def
      subprocess_run_def py_print_def Let_def gh_ok_def doc_example_def py_lower_y
      banner_def prompt_text_def)

section \<open>Exit status\<close>

text \<open>
  Claim C5, as amended. Whenever the preflight check fails, no issue-creation call is made
  and the process exits through \<^verbatim>\<open>sys.exit(1)\<close>. Whenever it does not fail, the process
  either returns from \<^verbatim>\<open>main\<close> with status 0 or ends on an exception that nothing catches
  (which the interpreter turns into status 1 as well).
\<close>

theorem exit_status_by_path:
  "(preflight_fails e \<longrightarrow> creation_calls (snd (main e)) = [] \<and> fst (main e) = Exited 1) \<and>
   (\<not> preflight_fails e \<longrightarrow> fst (main e) = Exited 0 \<or> (\<exists>x. fst (main e) = Uncaught x))"
  by (auto simp add: main_def preflight_fails_def check_gh_cli_def load_issue_data_def py_input_def
      subprocess_run_def py_print_def Let_def creation_calls_append
      split: run_result.split file_state.split option.split prod.split sum.split)
    (metis summary_outcome)

text \<open>
  The claim as stated says that status 1 occurs only on preflight failure. With a client that
  is installed and logged in and no task file, the process ends on \<^verbatim>\<open>FileNotFoundError\<close>.
\<close>

theorem exit_status_one_counterexample:
  "\<not> preflight_fails env_missing_file \<and> fst (main env_missing_file) = Uncaught FileNotFoundError \<and>
   exit_status (fst (main env_missing_file)) = 1"
  by (simp add: env_missing_file_def preflight_fails_def gh_ok_def main_def check_gh_cli_def
      load_issue_data_def subprocess_run_def py_print_def Let_def)

theorem exit_status_by_path_witness:
  "preflight_fails env_logged_out \<and> creation_calls (snd (main env_logged_out)) = [] \<and>
   fst (main env_logged_out) = Exited 1 \<and>
   \<not> preflight_fails env_declined \<and> fst (main env_declined) = Exited 0"
  using exit_status_by_path [of env_logged_out] exit_status_by_path [of env_declined]
  by (simp add: env_logged_out_def env_declined_def preflight_fails_def gh_logged_out_def gh_ok_def
      main_def check_gh_cli_def load_issue_data_def py_input_def subprocess_run_def py_print_def
      Let_def doc_example_def py_lower_y)

section \<open>The formatter\<close>

text \<open>
  Claim C6. The formatter is deterministic and free of side effects: for a task record with
  all its keys, the title is \<^verbatim>\<open>[<id>] <title>\<close>, the body is the value of
  \<^verbatim>\<open>create_issue_body\<close>, and \<^verbatim>\<open>create_issue\<close> hands this same pair to the client in every
  environment, for every repository and after every history: two calls on the same record
  give the same title and body.
\<close>

theorem formatter_deterministic:
  assumes "valid_task t"
  shows "\<exists>i ti ttl body.
           id_key t = Some i \<and> title t = Some ti \<and> ttl = ''['' @ i @ ''] '' @ ti \<and>
           create_issue_body t = Inr body \<and>
           (\<forall>e repo tr.
              map (issue_of \<circ> fst) (creation_calls (snd (create_issue e repo t tr))) =
              map (issue_of \<circ> fst) (creation_calls tr) @ [Some (ttl, body)])"
proof -
  from assms obtain i ti lbls where f: "id_key t = Some i" "title t = Some ti" "labels t = Some lbls"
    by (auto simp: valid_task_def)
  from assms obtain body where b: "create_issue_body t = Inr body"
    using create_issue_body_valid by blast
  have "map (issue_of \<circ> fst) (creation_calls (snd (create_issue e repo t tr))) =
        map (issue_of \<circ> fst) (creation_calls tr) @ [Some (''['' @ i @ ''] '' @ ti, body)]" for e repo tr
    by (simp add: create_issue_valid [OF f(1) f(2) b f(3)] Let_def creation_calls_append
        split: run_result.split)
  with f b show ?thesis by blast
qed

theorem formatter_deterministic_witness:
  "valid_task task_T1 \<and>
   (\<exists>body. create_issue_body task_T1 = Inr body \<and>
      (\<forall>e repo tr.
         map (issue_of \<circ> fst) (creation_calls (snd (create_issue e repo task_T1 tr))) =
         map (issue_of \<circ> fst) (creation_calls tr) @ [Some (''[T1] Add X'', body)]))"
proof -
  have v: "valid_task task_T1"
    by (simp add: valid_task_def task_T1_def)
  from formatter_deterministic [OF v] show ?thesis
    using v by (simp add: task_T1_def)
qed

section \<open>The sections of the body\<close>

text \<open>
  Claim C7, as amended. For every task record whose prerequisites contain no line break and
  whose objective has no line that reads \<^verbatim>\<open>## Prerequisites\<close>: when the prerequisite sequence
  is empty, the Prerequisites section of the rendered body consists of exactly one line, the
  bullet \<^verbatim>\<open>- None\<close>; when it has k > 0 entries, the section consists of exactly k bullet
  lines, one per prerequisite, in source order.
\<close>

theorem prerequisites_section_lines:
  assumes "objective t = Some obj" "prerequisites t = Some pre"
    "acceptanceCriteria t = Some acs" "timeEstimate t = Some te"
    and "''## Prerequisites'' \<notin> set (split_lines obj)"
    and "\<forall>p\<in>set pre. single_line p"
  shows "section_lines ''## Prerequisites'' (body_lines t) =
           (if pre = [] then [''- None''] else map (\<lambda>p. ''- '' @ p) pre)"
proof -
  from body_lines_prereqs [OF assms(1-4) assms(6)] obtain rest where
    b: "body_lines t =
           (''## Objective'' # split_lines obj @ [[]]) @
           ''## Prerequisites'' # prereq_bullets pre @ [] # rest"
    by blast
  have before: "\<forall>l\<in>set (''## Objective'' # split_lines obj @ [[]]). l \<noteq> ''## Prerequisites''"
    using assms(5) by auto
  have full: "\<forall>l\<in>set (prereq_bullets pre). l \<noteq> []"
    by (auto simp: prereq_bullets_def)
  have "section_lines ''## Prerequisites'' (body_lines t) = prereq_bullets pre"
    unfolding b by (rule section_lines_found [OF before full])
  then show ?thesis by (simp add: prereq_bullets_def)
qed

text \<open>
  The claim as stated holds for every task record. A single prerequisite with a line break
  in it gives a section of two bullet lines.
\<close>

theorem multiline_prerequisite_counterexample:
  "prerequisites task_multiline_prereq = Some [''x\<newline>- y''] \<and>
   section_lines ''## Prerequisites'' (body_lines task_multiline_prereq) = [''- x'', ''- y'']"
  by code_simp

theorem prerequisites_section_lines_witness:
  "section_lines ''## Prerequisites'' (body_lines task_T1) = [''- None''] \<and>
   section_lines ''## Prerequisites'' (body_lines task_T3) = [''- T1'', ''- T2'']"
  using prerequisites_section_lines [of task_T1 "''Do X''" "[]" "[''X works'']" "''1h''"]
    prerequisites_section_lines [of task_T3 "''Do Z''" "[''T1'', ''T2'']" "[''A'', ''B'']" "''2h''"]
  by (simp add: task_T1_def task_T3_def single_line_def)

text \<open>
  Claim C8, as amended. For every task record whose prerequisites and acceptance criteria
  contain no line break and whose objective has no line that reads
  \<^verbatim>\<open>## Acceptance Criteria\<close>: the lines of the rendered body that follow the first
  \<^verbatim>\<open>## Acceptance Criteria\<close> line, up to the next empty line, are exactly the unchecked
  checklist lines \<^verbatim>\<open>- [ ] <criterion>\<close>, one per acceptance criterion, in source order; for
  the criteria A, B these are two lines.
\<close>

theorem criteria_section_lines:
  assumes "objective t = Some obj" "prerequisites t = Some pre"
    "acceptanceCriteria t = Some acs" "timeEstimate t = Some te"
    and "''## Acceptance Criteria'' \<notin> set (split_lines obj)"
    and "\<forall>p\<in>set pre. single_line p" and "\<forall>c\<in>set acs. single_line c"
  shows "section_lines ''## Acceptance Criteria'' (body_lines t) = map (\<lambda>c. ''- [ ] '' @ c) acs \<and>
         (\<exists>before after.
            body_lines t = before @ ''## Acceptance Criteria'' # map (\<lambda>c. ''- [ ] '' @ c) acs @ [] # after \<and>
            ''## Acceptance Criteria'' \<notin> set before)"
proof -
  let ?before = "''## Objective'' # split_lines obj @ [[], ''## Prerequisites''] @ prereq_bullets pre @ [[]]"
  from body_lines_criteria [OF assms(1-4) assms(6,7)] obtain rest where
    b: "body_lines t = ?before @ ''## Acceptance Criteria'' # criteria_checks acs @ [] # rest"
    by blast
  have before: "\<forall>l\<in>set ?before. l \<noteq> ''## Acceptance Criteria''"
    using assms(5) by (auto simp: prereq_bullets_def)
  have full: "\<forall>l\<in>set (criteria_checks acs). l \<noteq> []"
    by (auto simp: criteria_checks_def)
  have "section_lines ''## Acceptance Criteria'' (body_lines t) = criteria_checks acs"
    unfolding b by (rule section_lines_found [OF before full])
  moreover have "''## Acceptance Criteria'' \<notin> set ?before"
    using before by blast
  ultimately show ?thesis
    using b unfolding criteria_checks_def by blast
qed

text \<open>
  The claim as stated holds for every task record. A single criterion with a line break in
  it gives two checklist lines.
\<close>

theorem multiline_criterion_counterexample:
  "acceptanceCriteria task_multiline_criterion = Some [''a\<newline>- [ ] b''] \<and>
   section_lines ''## Acceptance Criteria'' (body_lines task_multiline_criterion) =
     [''- [ ] a'', ''- [ ] b'']"
  by code_simp

theorem criteria_section_lines_witness:
  "acceptanceCriteria task_T3 = Some [''A'', ''B''] \<and>
   section_lines ''## Acceptance Criteria'' (body_lines task_T3) = [''- [ ] A'', ''- [ ] B''] \<and>
   (\<exists>before after.
      body_lines task_T3 = before @ ''## Acceptance Criteria'' # [''- [ ] A'', ''- [ ] B''] @ [] # after \<and>
      ''## Acceptance Criteria'' \<notin> set before)"
  using criteria_section_lines [of task_T3 "''Do Z''" "[''T1'', ''T2'']" "[''A'', ''B'']" "''2h''"]
  by (simp add: task_T3_def single_line_def)

section \<open>The preflight check\<close>



section \<open>The body and the other keys of a task\<close>

text \<open>
  Claim C10. The body does not depend on the identifier, the title or the labels: two task
  records that agree on \<^verbatim>\<open>objective\<close>, \<^verbatim>\<open>prerequisites\<close>, \<^verbatim>\<open>acceptanceCriteria\<close> and
  \<^verbatim>\<open>timeEstimate\<close> give the same result of \<^verbatim>\<open>create_issue_body\<close>, the same body or
  the same \<^verbatim>\<open>KeyError\<close>.
\<close>

theorem body_independent_of_id_title_labels:
  assumes "objective t1 = objective t2" "prerequisites t1 = prerequisites t2"
    "acceptanceCriteria t1 = acceptanceCriteria t2" "timeEstimate t1 = timeEstimate t2"
  shows "create_issue_body t1 = create_issue_body t2"
  by (simp only: create_issue_body_def assms)

theorem body_independent_of_id_title_labels_witness:
  "id_key task_T1 \<noteq> id_key task_T2 \<and> title task_T1 \<noteq> title task_T2 \<and>
   labels task_T1 \<noteq> labels task_T2 \<and> create_issue_body task_T1 = create_issue_body task_T2"
  using body_independent_of_id_title_labels [of task_T1 task_T2]
  by (simp add: task_T1_def task_T2_def)

end
